theory Spec2Isabelle
  imports Main
begin

section \<open>Data model (types/game.ts)\<close>

text \<open>
  Strings are lists of characters, taken to be ASCII: a guess is only scored after it
  passed the test \<^verbatim>\<open>/^[A-Z]+$/\<close>, and the dictionary \<^verbatim>\<open>WORDS\<close> is a list of English
  words. So one \<open>char\<close> stands for one UTF-16 code unit of the source and \<^verbatim>\<open>split("")\<close>
  is the identity on the list.
\<close>

datatype LetterState = Hit | Present | Miss | Empty

record Letter =
  char :: char
  state :: LetterState

type_synonym Guess = "Letter list"

datatype GameStatus = Playing | Won | Lost

datatype GameMode = Single | Multiplayer | Absurdle

text \<open>The field \<^verbatim>\<open>id\<close> of a player and of a game is written \<open>pid\<close> and \<open>gid\<close>, the field
  \<^verbatim>\<open>name\<close> is written \<open>pname\<close>.\<close>

record Player =
  pid :: string
  pname :: string
  guesses :: "Guess list"
  isWinner :: bool

text \<open>Optional fields (\<^verbatim>\<open>winnerId?\<close>, \<^verbatim>\<open>candidateWords?\<close>) are options, \<open>None\<close> being
  \<^verbatim>\<open>undefined\<close>. The counters that start at 0 and are only incremented are naturals; the
  configuration numbers, which the client supplies, are integers.\<close>

record ServerGameState =
  gid :: string
  answer :: string
  mode :: GameMode
  players :: "Player list"
  currentPlayerIndex :: nat
  currentRow :: nat
  gameStatus :: GameStatus
  winnerId :: "string option"
  maxRounds :: int
  wordLength :: int
  candidateWords :: "string list option"

text \<open>The client projection has the fields of the server state without \<^verbatim>\<open>answer\<close> and
  \<^verbatim>\<open>candidateWords\<close>; its field names carry the prefix \<open>c_\<close>.\<close>

record ClientGameState =
  c_id :: string
  c_mode :: GameMode
  c_players :: "Player list"
  c_currentPlayerIndex :: nat
  c_currentRow :: nat
  c_gameStatus :: GameStatus
  c_winnerId :: "string option"
  c_maxRounds :: int
  c_wordLength :: int
  c_currentGuess :: string

section \<open>String primitives\<close>

text \<open>\<^verbatim>\<open>String.prototype.toUpperCase\<close> on ASCII: the letters a to z are mapped to A to Z,
  every other character is left as it is.\<close>

definition upperChar :: "char \<Rightarrow> char" where
  "upperChar c =
     (case map_of (zip ''abcdefghijklmnopqrstuvwxyz'' ''ABCDEFGHIJKLMNOPQRSTUVWXYZ'') c of
        Some u \<Rightarrow> u
      | None \<Rightarrow> c)"

definition toUpperCase :: "string \<Rightarrow> string" where
  "toUpperCase s = map upperChar s"

text \<open>\<^verbatim>\<open>String.prototype.trim\<close> on ASCII: tab, line feed, vertical tab, form feed,
  carriage return and space are removed at both ends.\<close>

definition isWhiteSpace :: "char \<Rightarrow> bool" where
  "isWhiteSpace c = (c \<in> set [CHR 0x09, CHR 0x0A, CHR 0x0B, CHR 0x0C, CHR 0x0D, CHR '' ''])"

definition trim :: "string \<Rightarrow> string" where
  "trim s = rev (dropWhile isWhiteSpace (rev (dropWhile isWhiteSpace s)))"

section \<open>GameService.scoreGuess\<close>

text \<open>
  \<^verbatim>\<open>answerLetterCount\<close> is an object used as a dictionary from letters to numbers: a
  partial map, \<open>None\<close> being \<^verbatim>\<open>undefined\<close>.

  \<^verbatim>\<open>answerLetterCount[letter] = (answerLetterCount[letter] || 0) + 1\<close>, for each letter of
  the answer in turn.
\<close>

fun countLetters :: "string \<Rightarrow> (char \<rightharpoonup> int) \<Rightarrow> (char \<rightharpoonup> int)" where
  "countLetters [] answerLetterCount = answerLetterCount"
| "countLetters (letter # rest) answerLetterCount =
     countLetters rest
       (answerLetterCount(letter \<mapsto> (case answerLetterCount letter of None \<Rightarrow> 0 | Some n \<Rightarrow> n) + 1))"

text \<open>\<^verbatim>\<open>answerLetterCount[letter]--\<close>. The source only decrements an entry that it has just
  compared with a letter of the answer or tested to be positive, so the entry is a number;
  an absent entry (where JavaScript would store NaN, which like \<^verbatim>\<open>undefined\<close> is not
  \<^verbatim>\<open>> 0\<close>) is left absent.\<close>

definition decrement :: "(char \<rightharpoonup> int) \<Rightarrow> char \<Rightarrow> (char \<rightharpoonup> int)" where
  "decrement answerLetterCount letter =
     (case answerLetterCount letter of
        None \<Rightarrow> answerLetterCount
      | Some n \<Rightarrow> answerLetterCount(letter \<mapsto> n - 1))"

text \<open>First pass, \<^verbatim>\<open>guessArray.forEach((letter, index) => ...)\<close>: the remaining letters of
  the guess, the index of the first of them, and the counts so far. \<^verbatim>\<open>answerArray[index]\<close>
  beyond the end of the answer is \<^verbatim>\<open>undefined\<close>, which no letter equals.\<close>

fun firstPass :: "string \<Rightarrow> string \<Rightarrow> nat \<Rightarrow> (char \<rightharpoonup> int) \<Rightarrow> Letter list \<times> (char \<rightharpoonup> int)" where
  "firstPass [] answerArray index answerLetterCount = ([], answerLetterCount)"
| "firstPass (letter # rest) answerArray index answerLetterCount =
     (if index < length answerArray \<and> letter = answerArray ! index
      then (case firstPass rest answerArray (Suc index) (decrement answerLetterCount letter) of
              (result, cnt) \<Rightarrow> (\<lparr>char = letter, state = Hit\<rparr> # result, cnt))
      else (case firstPass rest answerArray (Suc index) answerLetterCount of
              (result, cnt) \<Rightarrow> (\<lparr>char = letter, state = Empty\<rparr> # result, cnt)))"

text \<open>Second pass, \<^verbatim>\<open>result.forEach((letterObj, index) => ...)\<close>: every entry still
  \<^verbatim>\<open>"empty"\<close> is overwritten in place; \<^verbatim>\<open>undefined > 0\<close> is false.\<close>

fun secondPass :: "Letter list \<Rightarrow> (char \<rightharpoonup> int) \<Rightarrow> Letter list" where
  "secondPass [] answerLetterCount = []"
| "secondPass (letterObj # rest) answerLetterCount =
     (if state letterObj = Empty
      then (let letter = char letterObj in
            if (case answerLetterCount letter of None \<Rightarrow> False | Some n \<Rightarrow> n > 0)
            then \<lparr>char = letter, state = Present\<rparr> # secondPass rest (decrement answerLetterCount letter)
            else \<lparr>char = letter, state = Miss\<rparr> # secondPass rest answerLetterCount)
      else letterObj # secondPass rest answerLetterCount)"

definition scoreGuess :: "string \<Rightarrow> string \<Rightarrow> Guess" where
  "scoreGuess guess answer' =
     (let guessArray = toUpperCase guess;
          answerArray = toUpperCase answer';
          answerLetterCount = countLetters answerArray Map.empty
      in case firstPass guessArray answerArray 0 answerLetterCount of
           (result, cnt) \<Rightarrow> secondPass result cnt)"

section \<open>GameService.scorePattern\<close>

text \<open>The loop \<^verbatim>\<open>pattern.forEach\<close> with the accumulator \<^verbatim>\<open>score\<close>: 6 for a hit, 1 for a
  present, nothing otherwise. The sums stay far below \<open>2^53\<close>, where the source's
  floating-point numbers are exact integers.\<close>

fun scorePatternFrom :: "nat \<Rightarrow> Guess \<Rightarrow> nat" where
  "scorePatternFrom score [] = score"
| "scorePatternFrom score (letter # rest) =
     (if state letter = Hit then scorePatternFrom (score + 6) rest
      else if state letter = Present then scorePatternFrom (score + 1) rest
      else scorePatternFrom score rest)"

definition scorePattern :: "Guess \<Rightarrow> nat" where
  "scorePattern pattern = scorePatternFrom 0 pattern"

section \<open>GameService.absurdleScoreGuess\<close>

text \<open>What the service throws. \<open>TypeError\<close> is the runtime's error for reading a
  property of \<^verbatim>\<open>undefined\<close>; the others are the messages of the \<^verbatim>\<open>throw\<close> statements.\<close>

datatype error =
    GameNotFound
  | NotInPlayingState
  | InvalidGuessFormat
  | GuessMustBeLong int
  | OnlyLetters
  | NotAValidWord
  | NotYourTurn string
  | NoCandidateWords
  | NoValidPatterns
  | TypeError

record WordScore =
  ws_word :: string
  ws_pattern :: Guess
  ws_score :: nat

record AbsurdleResult =
  pattern :: Guess
  remainingWords :: "string list"
  selectedAnswer :: "string option"

text \<open>\<^verbatim>\<open>Math.min(...scores)\<close>: the least of the numbers, and \<^verbatim>\<open>Infinity\<close> (here \<open>None\<close>) when
  there is none.\<close>

fun mathMin :: "nat list \<Rightarrow> nat option" where
  "mathMin [] = None"
| "mathMin (x # xs) = Some (fold min xs x)"

definition absurdleScoreGuess :: "string \<Rightarrow> string list \<Rightarrow> error + AbsurdleResult" where
  "absurdleScoreGuess guess candidates =
     (let guessUpper = toUpperCase guess;
          wordScores = map (\<lambda>candidate.
              let pat = scoreGuess guessUpper candidate
              in \<lparr>ws_word = candidate, ws_pattern = pat, ws_score = scorePattern pat\<rparr>) candidates;
          minScore = mathMin (map ws_score wordScores);
          lowestScoringWords = filter (\<lambda>ws. Some (ws_score ws) = minScore) wordScores
      in case lowestScoringWords of
           [] \<Rightarrow> Inl NoValidPatterns
         | first # others \<Rightarrow>
             if minScore = Some 0 then
               (if length lowestScoringWords = 1
                then Inr \<lparr>pattern = ws_pattern first,
                          remainingWords = map ws_word lowestScoringWords,
                          selectedAnswer = Some (ws_word first)\<rparr>
                else Inr \<lparr>pattern = map (\<lambda>c. \<lparr>char = c, state = Empty\<rparr>) guessUpper,
                          remainingWords = map ws_word lowestScoringWords,
                          selectedAnswer = None\<rparr>)
             else Inr \<lparr>pattern = ws_pattern first,
                       remainingWords = map ws_word lowestScoringWords,
                       selectedAnswer = Some (ws_word first)\<rparr>)"

section \<open>The session store and GameService.submitGuess\<close>

text \<open>\<^verbatim>\<open>games: Map<string, ServerGameState>\<close>. The source updates the game object held by the
  map in place, so every write to \<^verbatim>\<open>game\<close> is a write to the store, and a \<^verbatim>\<open>throw\<close> keeps the
  writes made before it: the model returns the store next to the result or the error.\<close>

type_synonym store = "string \<rightharpoonup> ServerGameState"

definition toClientGameState :: "ServerGameState \<Rightarrow> string \<Rightarrow> ClientGameState" where
  "toClientGameState serverState currentGuess =
     \<lparr>c_id = gid serverState,
      c_mode = mode serverState,
      c_players = players serverState,
      c_currentPlayerIndex = currentPlayerIndex serverState,
      c_currentRow = currentRow serverState,
      c_gameStatus = gameStatus serverState,
      c_winnerId = winnerId serverState,
      c_maxRounds = maxRounds serverState,
      c_wordLength = wordLength serverState,
      c_currentGuess = currentGuess\<rparr>"

text \<open>\<^verbatim>\<open>this.wordList.includes(word.toUpperCase())\<close>; the word list is the imported constant
  \<^verbatim>\<open>WORDS\<close>, a parameter here.\<close>

definition isValidWord :: "string list \<Rightarrow> string \<Rightarrow> bool" where
  "isValidWord wordList w = (toUpperCase w \<in> set wordList)"

text \<open>The regular expression \<^verbatim>\<open>/^[A-Z]+$/\<close>.\<close>

definition onlyLetters :: "string \<Rightarrow> bool" where
  "onlyLetters s = (s \<noteq> [] \<and> (\<forall>c \<in> set s. c \<in> set ''ABCDEFGHIJKLMNOPQRSTUVWXYZ''))"

text \<open>Multiplayer turn validation (lines 557 to 562): the error thrown, if any. An absent or
  empty \<^verbatim>\<open>playerId\<close> is falsy and skips the test; \<^verbatim>\<open>currentPlayer.id\<close> of a player index
  outside the array is a TypeError.\<close>

definition turnValidation :: "ServerGameState \<Rightarrow> string option \<Rightarrow> error option" where
  "turnValidation game playerId =
     (if mode game = Multiplayer then
        (case playerId of
           None \<Rightarrow> None
         | Some p \<Rightarrow>
             if p = [] then None
             else if currentPlayerIndex game < length (players game) then
               (let currentPlayer = players game ! currentPlayerIndex game
                in if p \<noteq> pid currentPlayer then Some (NotYourTurn (pname currentPlayer)) else None)
             else Some TypeError)
      else None)"

text \<open>Scoring (lines 565 to 594): the scored guess and the game after the writes to
  \<^verbatim>\<open>candidateWords\<close> and \<^verbatim>\<open>answer\<close>. Both \<^verbatim>\<open>throw\<close>s come before the first write.
  \<^verbatim>\<open>if (absurdleResult.selectedAnswer)\<close> is false for \<^verbatim>\<open>null\<close> and for the empty string.\<close>

definition scoring :: "ServerGameState \<Rightarrow> string \<Rightarrow> error + (Guess \<times> ServerGameState)" where
  "scoring game normalizedGuess =
     (if mode game = Absurdle \<and> answer game = [] then
        (case candidateWords game of
           None \<Rightarrow> Inl NoCandidateWords
         | Some cands \<Rightarrow>
             if length cands = 0 then Inl NoCandidateWords
             else (case absurdleScoreGuess normalizedGuess cands of
                     Inl e \<Rightarrow> Inl e
                   | Inr absurdleResult \<Rightarrow>
                       (let game1 = game\<lparr>candidateWords := Some (remainingWords absurdleResult)\<rparr>
                        in case selectedAnswer absurdleResult of
                             None \<Rightarrow> Inr (pattern absurdleResult, game1)
                           | Some sel \<Rightarrow>
                               if sel = [] then Inr (pattern absurdleResult, game1)
                               else Inr (scoreGuess normalizedGuess sel, game1\<lparr>answer := sel\<rparr>))))
      else Inr (scoreGuess normalizedGuess (answer game), game))"

text \<open>Player update, win condition and turn or round advance (lines 596 to 649), for a player
  index inside the array. \<^verbatim>\<open>currentPlayer\<close> is the object in \<^verbatim>\<open>game.players\<close>, updated in
  place. In the multiplayer branch the test \<^verbatim>\<open>game.gameStatus !== "playing"\<close> reads the status
  the game has at that point.\<close>

definition advance :: "ServerGameState \<Rightarrow> string \<Rightarrow> Guess \<Rightarrow> ServerGameState" where
  "advance game normalizedGuess scoredGuess =
     (let i = currentPlayerIndex game;
          currentPlayer0 = players game ! i;
          currentPlayer1 = currentPlayer0\<lparr>guesses := guesses currentPlayer0 @ [scoredGuess]\<rparr>;
          isWin = (if mode game = Absurdle
                   then answer game \<noteq> [] \<and> normalizedGuess = answer game
                   else normalizedGuess = answer game);
          currentPlayer = (if isWin then currentPlayer1\<lparr>isWinner := True\<rparr> else currentPlayer1);
          game1 = game\<lparr>players := (players game)[i := currentPlayer]\<rparr>
      in if mode game1 = Multiplayer then
           (let game2 = game1\<lparr>currentPlayerIndex := (currentPlayerIndex game1 + 1) mod length (players game1)\<rparr>;
                game3 = (if currentPlayerIndex game2 = 0
                         then game2\<lparr>currentRow := currentRow game2 + 1\<rparr> else game2)
            in if currentPlayerIndex game3 = 0 \<or> gameStatus game3 \<noteq> Playing then
                 (case filter isWinner (players game3) of
                    w # ws \<Rightarrow> game3\<lparr>gameStatus := Won, winnerId := Some (pid w)\<rparr>
                  | [] \<Rightarrow> if int (currentRow game3) \<ge> maxRounds game3
                          then game3\<lparr>gameStatus := Lost\<rparr> else game3)
               else game3)
         else if isWin then game1\<lparr>gameStatus := Won, winnerId := Some (pid currentPlayer)\<rparr>
         else (let game2 = game1\<lparr>currentRow := currentRow game1 + 1\<rparr>
               in if int (currentRow game2) \<ge> maxRounds game2
                  then game2\<lparr>gameStatus := Lost\<rparr> else game2))"

text \<open>\<^verbatim>\<open>submitGuess(gameId, guess, playerId?)\<close>: the result or the error thrown, and the store
  afterwards. \<^verbatim>\<open>!guess\<close> holds for the empty string; the parameter is a string, so the test
  \<^verbatim>\<open>typeof guess !== "string"\<close> is false.\<close>

definition submitGuess ::
  "string list \<Rightarrow> store \<Rightarrow> string \<Rightarrow> string \<Rightarrow> string option
     \<Rightarrow> (error + (ClientGameState \<times> Guess)) \<times> store" where
  "submitGuess wordList games gameId guess playerId =
     (case games gameId of
        None \<Rightarrow> (Inl GameNotFound, games)
      | Some game \<Rightarrow>
          if gameStatus game \<noteq> Playing then (Inl NotInPlayingState, games)
          else if guess = [] then (Inl InvalidGuessFormat, games)
          else
            (let normalizedGuess = toUpperCase (trim guess)
             in if int (length normalizedGuess) \<noteq> wordLength game
                then (Inl (GuessMustBeLong (wordLength game)), games)
                else if \<not> onlyLetters normalizedGuess then (Inl OnlyLetters, games)
                else if \<not> isValidWord wordList normalizedGuess then (Inl NotAValidWord, games)
                else (case turnValidation game playerId of
                        Some e \<Rightarrow> (Inl e, games)
                      | None \<Rightarrow>
                          (case scoring game normalizedGuess of
                             Inl e \<Rightarrow> (Inl e, games)
                           | Inr (scoredGuess, game1) \<Rightarrow>
                               if currentPlayerIndex game1 < length (players game1) then
                                 (let game2 = advance game1 normalizedGuess scoredGuess
                                  in (Inr (toClientGameState game2 [], scoredGuess),
                                      games(gameId \<mapsto> game2)))
                               else (Inl TypeError, games(gameId \<mapsto> game1))))))"

text \<open>Consecutive calls of \<^verbatim>\<open>submitGuess\<close> on one game, each with its guess and optional
  player id: the store after the last call, or \<open>None\<close> as soon as one call throws.\<close>

fun submitGuesses :: "string list \<Rightarrow> store \<Rightarrow> string \<Rightarrow> (string \<times> string option) list \<Rightarrow> store option" where
  "submitGuesses wordList games gameId [] = Some games"
| "submitGuesses wordList games gameId ((guess, playerId) # rest) =
     (case submitGuess wordList games gameId guess playerId of
        (Inl e, games1) \<Rightarrow> None
      | (Inr r, games1) \<Rightarrow> submitGuesses wordList games1 gameId rest)"

section \<open>GameService.getGame and GameService.getGameAnswer\<close>

definition getGame :: "store \<Rightarrow> string \<Rightarrow> ClientGameState option" where
  "getGame games gameId =
     (case games gameId of None \<Rightarrow> None | Some game \<Rightarrow> Some (toClientGameState game []))"

text \<open>\<^verbatim>\<open>game.answer || (...)\<close> takes the right-hand side when the answer is the empty string.\<close>

definition getGameAnswer :: "store \<Rightarrow> string \<Rightarrow> string option" where
  "getGameAnswer games gameId =
     (case games gameId of
        None \<Rightarrow> None
      | Some game \<Rightarrow>
          if gameStatus game = Playing then None
          else if mode game = Absurdle then
            (if answer game \<noteq> [] then Some (answer game)
             else (case candidateWords game of
                     None \<Rightarrow> None
                   | Some cands \<Rightarrow> if length cands = 1 then Some (cands ! 0) else None))
          else Some (answer game))"

section \<open>Measures used in the statements\<close>

text \<open>The number of positions of a scored guess that carry the verdict \<open>v\<close> with the
  character \<open>c\<close>.\<close>

definition marked :: "LetterState \<Rightarrow> char \<Rightarrow> Guess \<Rightarrow> nat" where
  "marked v c g = length (filter (\<lambda>l. state l = v \<and> char l = c) g)"

text \<open>The number stored for a letter in the dictionary of counts, 0 when there is none.\<close>

definition countOf :: "(char \<rightharpoonup> int) \<Rightarrow> char \<Rightarrow> int" where
  "countOf m c = (case m c of None \<Rightarrow> 0 | Some n \<Rightarrow> n)"

text \<open>The helpfulness of a candidate for a guess, as \<open>absurdleScoreGuess\<close> computes it.\<close>

definition helpfulness :: "string \<Rightarrow> string \<Rightarrow> nat" where
  "helpfulness guess candidate = scorePattern (scoreGuess (toUpperCase guess) candidate)"

text \<open>The candidates whose helpfulness is the minimum over the pool: the words of
  \<^verbatim>\<open>lowestScoringWords\<close>, in the order of the pool.\<close>

definition minimalSet :: "string \<Rightarrow> string list \<Rightarrow> string list" where
  "minimalSet guess candidates =
     filter (\<lambda>w. Some (helpfulness guess w) = mathMin (map (helpfulness guess) candidates)) candidates"

text \<open>The ids of the players that \<^verbatim>\<open>game.players.filter(player => player.isWinner)\<close> collects
  (line 623), in player order. The field \<^verbatim>\<open>winnerId\<close> of the game holds the first of them.\<close>

definition winnerIds :: "ServerGameState \<Rightarrow> string list" where
  "winnerIds game = map pid (filter isWinner (players game))"

section \<open>Example sessions\<close>

text \<open>A two-word dictionary, the Absurdle game that \<^verbatim>\<open>createGame\<close> builds over it, and a
  two-player game with the answer CD.\<close>

definition exampleWords :: "string list" where
  "exampleWords = [''AB'', ''CD'']"

definition exampleAbsurdle :: ServerGameState where
  "exampleAbsurdle =
     \<lparr>gid = ''g'', answer = [], mode = Absurdle,
      players = [\<lparr>pid = ''p1'', pname = ''Player'', guesses = [], isWinner = False\<rparr>],
      currentPlayerIndex = 0, currentRow = 0, gameStatus = Playing, winnerId = None,
      maxRounds = 6, wordLength = 2, candidateWords = Some [''AB'', ''CD'']\<rparr>"

definition exampleMultiplayer :: ServerGameState where
  "exampleMultiplayer =
     \<lparr>gid = ''m'', answer = ''CD'', mode = Multiplayer,
      players = [\<lparr>pid = ''p1'', pname = ''Ann'', guesses = [], isWinner = False\<rparr>,
                 \<lparr>pid = ''p2'', pname = ''Bob'', guesses = [], isWinner = False\<rparr>],
      currentPlayerIndex = 0, currentRow = 0, gameStatus = Playing, winnerId = None,
      maxRounds = 6, wordLength = 2, candidateWords = None\<rparr>"

section \<open>The scorer: counts and verdicts\<close>

lemma marked_Nil [simp]: "marked v c [] = 0"
  by (simp add: marked_def)

lemma marked_Cons [simp]:
  "marked v c (l # g) = (if state l = v \<and> char l = c then 1 else 0) + marked v c g"
  by (simp add: marked_def)

lemma countLetters_dom: "dom (countLetters xs m) = dom m \<union> set xs"
  by (induction xs arbitrary: m) auto

lemma countLetters_countOf: "countOf (countLetters xs m) c = countOf m c + int (count_list xs c)"
  by (induction xs arbitrary: m) (auto simp: countOf_def)

lemma decrement_dom [simp]: "dom (decrement m l) = dom m"
  by (auto simp: decrement_def split: option.splits)

lemma decrement_countOf:
  "l \<in> dom m \<Longrightarrow> countOf (decrement m l) c = countOf m c - (if c = l then 1 else 0)"
  by (auto simp: decrement_def countOf_def split: option.splits)

lemma firstPass_chars: "map char (fst (firstPass gs as i m)) = gs"
  by (induction gs arbitrary: i m) (auto simp: case_prod_beta)

lemma firstPass_no_present: "marked Present c (fst (firstPass gs as i m)) = 0"
  by (induction gs arbitrary: i m) (auto simp: case_prod_beta)

text \<open>A hit at index \<open>i\<close> or later uses up an occurrence of its letter in the answer from
  index \<open>i\<close> on.\<close>

lemma firstPass_hits_le: "marked Hit c (fst (firstPass gs as i m)) \<le> count_list (drop i as) c"
proof (induction gs arbitrary: i m)
  case Nil
  then show ?case by simp
next
  case (Cons g gs)
  have step: "count_list (drop (Suc i) as) c \<le> count_list (drop i as) c"
    by (cases "i < length as") (simp_all flip: Cons_nth_drop_Suc)
  show ?case
  proof (cases "i < length as \<and> g = as ! i")
    case True
    then have "count_list (drop i as) c = (if g = c then 1 else 0) + count_list (drop (Suc i) as) c"
      by (auto simp flip: Cons_nth_drop_Suc)
    with True Cons.IH [of "Suc i" "decrement m g"] show ?thesis
      by (auto simp: case_prod_beta)
  next
    case False
    with step Cons.IH [of "Suc i" m] show ?thesis
      by (auto simp: case_prod_beta)
  qed
qed

text \<open>The first pass lowers the count of a letter by the number of its hits.\<close>

lemma firstPass_countOf:
  "set as \<subseteq> dom m \<Longrightarrow>
   countOf (snd (firstPass gs as i m)) c
     = countOf m c - int (marked Hit c (fst (firstPass gs as i m)))"
proof (induction gs arbitrary: i m)
  case Nil
  then show ?case by simp
next
  case (Cons g gs)
  show ?case
  proof (cases "i < length as \<and> g = as ! i")
    case True
    then have "g \<in> dom m" using Cons.prems by (metis nth_mem subsetD)
    with True Cons.IH [of "decrement m g" "Suc i"] Cons.prems show ?thesis
      by (auto simp: case_prod_beta decrement_countOf)
  next
    case False
    with Cons.IH [of m "Suc i"] Cons.prems show ?thesis
      by (auto simp: case_prod_beta)
  qed
qed

lemma secondPass_chars: "map char (secondPass res m) = map char res"
  by (induction res arbitrary: m) (auto simp: Let_def)

lemma secondPass_hits: "marked Hit c (secondPass res m) = marked Hit c res"
  by (induction res arbitrary: m) (auto simp: Let_def)

text \<open>The second pass marks a letter present at most as often as its remaining count.\<close>

lemma secondPass_presents:
  "int (marked Present c (secondPass res m)) \<le> int (marked Present c res) + max 0 (countOf m c)"
proof (induction res arbitrary: m)
  case Nil
  then show ?case by simp
next
  case (Cons l res)
  show ?case
  proof (cases "state l = Empty \<and> (case m (char l) of None \<Rightarrow> False | Some n \<Rightarrow> n > 0)")
    case True
    then obtain n where n: "m (char l) = Some n" "n > 0"
      by (auto split: option.splits)
    then have "char l \<in> dom m" by auto
    then have "countOf (decrement m (char l)) c = countOf m c - (if c = char l then 1 else 0)"
      by (rule decrement_countOf)
    moreover have "countOf m (char l) = n" using n by (simp add: countOf_def)
    ultimately show ?thesis using True n Cons.IH [of "decrement m (char l)"]
      by (auto simp: Let_def)
  next
    case False
    then show ?thesis using Cons.IH [of m]
      by (auto simp: Let_def)
  qed
qed

lemma secondPass_no_Empty: "Empty \<notin> set (map state (secondPass res m))"
  by (induction res arbitrary: m) (auto simp: Let_def)

lemma marked_le_chars: "marked Hit c g + marked Present c g \<le> count_list (map char g) c"
  by (induction g) auto

lemma scoreGuess_conservation:
  "marked Hit c (scoreGuess guess answer') + marked Present c (scoreGuess guess answer')
     \<le> min (count_list (toUpperCase guess) c) (count_list (toUpperCase answer') c)"
proof -
  define gs where "gs = toUpperCase guess"
  define as where "as = toUpperCase answer'"
  define m where "m = countLetters as Map.empty"
  define res where "res = fst (firstPass gs as 0 m)"
  define m1 where "m1 = snd (firstPass gs as 0 m)"
  have sg: "scoreGuess guess answer' = secondPass res m1"
    by (simp add: scoreGuess_def Let_def gs_def as_def m_def res_def m1_def case_prod_beta)
  have chars: "map char (secondPass res m1) = gs"
    by (simp add: secondPass_chars res_def firstPass_chars)
  have le_guess:
    "marked Hit c (secondPass res m1) + marked Present c (secondPass res m1) \<le> count_list gs c"
    using marked_le_chars [of c "secondPass res m1"] by (simp add: chars)
  have dom: "set as \<subseteq> dom m"
    by (simp add: m_def countLetters_dom)
  have m0: "countOf m c = int (count_list as c)"
    using countLetters_countOf [of as Map.empty c] by (simp add: m_def countOf_def)
  have hits: "marked Hit c res \<le> count_list as c"
    using firstPass_hits_le [of c gs as 0 m] by (simp add: res_def)
  have m1c: "countOf m1 c = int (count_list as c) - int (marked Hit c res)"
    using firstPass_countOf [OF dom, of gs 0 c] by (simp add: m1_def res_def m0)
  have "int (marked Present c (secondPass res m1)) \<le> max 0 (countOf m1 c)"
    using secondPass_presents [of c res m1] by (simp add: res_def firstPass_no_present)
  with m1c hits have "marked Hit c res + marked Present c (secondPass res m1) \<le> count_list as c"
    by simp
  then have le_answer:
    "marked Hit c (secondPass res m1) + marked Present c (secondPass res m1) \<le> count_list as c"
    by (simp add: secondPass_hits)
  from le_guess le_answer show ?thesis
    by (simp add: sg gs_def as_def)
qed

text \<open>
  Claim C1. For every guess, every answer and every letter \<open>c\<close>, the number of positions that
  \<open>scoreGuess\<close> marks Hit with the character \<open>c\<close> plus the number it marks Present with \<open>c\<close>
  is at most the minimum of the occurrences of \<open>c\<close> in the guess and in the answer. The
  scorer puts both words in upper case before it compares them, and the characters of its
  result are those of the upper-case guess: the first conjunct counts the occurrences in the
  upper-case words and holds for all strings, of equal length or not; the second is the
  same bound on the words themselves, for words that are in upper case already (as the
  normalised guess of \<open>submitGuess\<close> is).
\<close>

theorem scoreGuess_letter_conservation:
  "marked Hit c (scoreGuess guess answer') + marked Present c (scoreGuess guess answer')
     \<le> min (count_list (toUpperCase guess) c) (count_list (toUpperCase answer') c)
   \<and> (toUpperCase guess = guess \<and> toUpperCase answer' = answer' \<and> length guess = length answer'
        \<longrightarrow> marked Hit c (scoreGuess guess answer') + marked Present c (scoreGuess guess answer')
              \<le> min (count_list guess c) (count_list answer' c))"
  using scoreGuess_conservation [of c guess answer'] by auto

theorem scoreGuess_letter_conservation_witness:
  "toUpperCase ''LLAMA'' = ''LLAMA'' \<and> toUpperCase ''ALLOY'' = ''ALLOY''
   \<and> length ''LLAMA'' = length ''ALLOY''
   \<and> marked Hit CHR ''L'' (scoreGuess ''LLAMA'' ''ALLOY'')
       + marked Present CHR ''L'' (scoreGuess ''LLAMA'' ''ALLOY'')
     \<le> min (count_list ''LLAMA'' CHR ''L'') (count_list ''ALLOY'' CHR ''L'')"
proof -
  have up: "toUpperCase ''LLAMA'' = ''LLAMA'' \<and> toUpperCase ''ALLOY'' = ''ALLOY''
      \<and> length ''LLAMA'' = length ''ALLOY''"
    by (simp add: toUpperCase_def upperChar_def)
  with scoreGuess_letter_conservation [of "CHR ''L''" "''LLAMA''" "''ALLOY''"]
  show ?thesis by blast
qed

text \<open>
  Claim C10. Every position of the scored guess that \<open>scoreGuess\<close> returns carries Hit,
  Present or Miss: the placeholder \<open>Empty\<close> of the first pass is not the state of any
  letter of the result, whatever the guess and the answer (of equal length or not).
\<close>

theorem scoreGuess_no_empty: "Empty \<notin> set (map state (scoreGuess guess answer'))"
  unfolding scoreGuess_def Let_def case_prod_beta by (rule secondPass_no_Empty)

section \<open>The helpfulness score\<close>

lemma scorePatternFrom_eq:
  "scorePatternFrom s p
     = s + 6 * length (filter (\<lambda>l. state l = Hit) p) + length (filter (\<lambda>l. state l = Present) p)"
  by (induction p arbitrary: s) auto

lemma scorePattern_eq:
  "scorePattern p
     = 6 * length (filter (\<lambda>l. state l = Hit) p) + length (filter (\<lambda>l. state l = Present) p)"
  by (simp add: scorePattern_def scorePatternFrom_eq)

lemma filter_state_replicate:
  "map state q = replicate n Present \<Longrightarrow>
   length (filter (\<lambda>l. state l = Hit) q) = 0 \<and> length (filter (\<lambda>l. state l = Present) q) = n"
proof (induction q arbitrary: n)
  case Nil
  then show ?case by auto
next
  case (Cons l q)
  then obtain k where k: "n = Suc k" "state l = Present" "map state q = replicate k Present"
    by (cases n) auto
  with Cons.IH [of k] show ?case by simp
qed

lemma hit_filter_pos: "Hit \<in> set (map state p) \<Longrightarrow> 1 \<le> length (filter (\<lambda>l. state l = Hit) p)"
  by (induction p) auto

text \<open>
  Claim C5. \<open>scorePattern\<close> is 6 times the number of Hit verdicts plus the number of Present
  verdicts. Hence a pattern \<open>p\<close> with at least one Hit scores at least 6, a pattern \<open>q\<close> of
  five Presents scores 5, and \<open>q\<close> scores strictly less than \<open>p\<close>.
\<close>

theorem scorePattern_weights:
  "scorePattern p
     = 6 * length (filter (\<lambda>l. state l = Hit) p) + 1 * length (filter (\<lambda>l. state l = Present) p)
   \<and> (Hit \<in> set (map state p) \<longrightarrow> 6 \<le> scorePattern p)
   \<and> (map state q = replicate 5 Present \<longrightarrow> scorePattern q = 5)
   \<and> (Hit \<in> set (map state p) \<and> map state q = replicate 5 Present
        \<longrightarrow> scorePattern q < scorePattern p)"
proof -
  have a: "6 \<le> scorePattern p" if "Hit \<in> set (map state p)"
    unfolding scorePattern_eq using hit_filter_pos [OF that] by linarith
  have b: "map state q = replicate 5 Present \<Longrightarrow> scorePattern q = 5"
    using filter_state_replicate [of q 5] by (simp add: scorePattern_eq)
  from a b show ?thesis
    by (auto simp: scorePattern_eq)
qed

theorem scorePattern_weights_witness:
  "Hit \<in> set (map state [\<lparr>char = CHR ''A'', state = Hit\<rparr>])
   \<and> map state (replicate 5 \<lparr>char = CHR ''B'', state = Present\<rparr>) = replicate 5 Present
   \<and> scorePattern [\<lparr>char = CHR ''A'', state = Hit\<rparr>] = 6
   \<and> scorePattern (replicate 5 \<lparr>char = CHR ''B'', state = Present\<rparr>) = 5
   \<and> scorePattern (replicate 5 \<lparr>char = CHR ''B'', state = Present\<rparr>)
       < scorePattern [\<lparr>char = CHR ''A'', state = Hit\<rparr>]"
proof -
  have h: "Hit \<in> set (map state [\<lparr>char = CHR ''A'', state = Hit\<rparr>])
      \<and> map state (replicate 5 \<lparr>char = CHR ''B'', state = Present\<rparr>) = replicate 5 Present"
    by simp
  with scorePattern_weights [of "[\<lparr>char = CHR ''A'', state = Hit\<rparr>]"
      "replicate 5 \<lparr>char = CHR ''B'', state = Present\<rparr>"]
  show ?thesis by simp
qed

section \<open>The adversarial selector\<close>

lemma mathMin_Min:
  assumes "xs \<noteq> []"
  shows "mathMin xs = Some (Min (set xs))"
proof (cases xs)
  case Nil
  with assms show ?thesis by simp
next
  case (Cons a list)
  then show ?thesis using Min.set_eq_fold [of a list] by simp
qed

lemma absurdleScoreGuess_eq:
  "absurdleScoreGuess guess candidates =
     (case minimalSet guess candidates of
        [] \<Rightarrow> Inl NoValidPatterns
      | first # others \<Rightarrow>
          if mathMin (map (helpfulness guess) candidates) = Some 0
               \<and> length (minimalSet guess candidates) \<noteq> 1
          then Inr \<lparr>pattern = map (\<lambda>c. \<lparr>char = c, state = Empty\<rparr>) (toUpperCase guess),
                    remainingWords = minimalSet guess candidates,
                    selectedAnswer = None\<rparr>
          else Inr \<lparr>pattern = scoreGuess (toUpperCase guess) first,
                    remainingWords = minimalSet guess candidates,
                    selectedAnswer = Some first\<rparr>)"
proof -
  let ?f = "\<lambda>candidate. \<lparr>ws_word = candidate,
      ws_pattern = scoreGuess (toUpperCase guess) candidate,
      ws_score = scorePattern (scoreGuess (toUpperCase guess) candidate)\<rparr>"
  have scores: "map ws_score (map ?f candidates) = map (helpfulness guess) candidates"
    by (simp add: helpfulness_def)
  have low: "filter (\<lambda>ws. Some (ws_score ws) = mathMin (map (helpfulness guess) candidates))
      (map ?f candidates) = map ?f (minimalSet guess candidates)"
    by (simp add: minimalSet_def filter_map comp_def helpfulness_def)
  have unfolded: "absurdleScoreGuess guess candidates =
     (case map ?f (minimalSet guess candidates) of
        [] \<Rightarrow> Inl NoValidPatterns
      | first # others \<Rightarrow>
          if mathMin (map (helpfulness guess) candidates) = Some 0 then
            (if length (map ?f (minimalSet guess candidates)) = 1
             then Inr \<lparr>pattern = ws_pattern first,
                       remainingWords = map ws_word (map ?f (minimalSet guess candidates)),
                       selectedAnswer = Some (ws_word first)\<rparr>
             else Inr \<lparr>pattern = map (\<lambda>c. \<lparr>char = c, state = Empty\<rparr>) (toUpperCase guess),
                       remainingWords = map ws_word (map ?f (minimalSet guess candidates)),
                       selectedAnswer = None\<rparr>)
          else Inr \<lparr>pattern = ws_pattern first,
                    remainingWords = map ws_word (map ?f (minimalSet guess candidates)),
                    selectedAnswer = Some (ws_word first)\<rparr>)"
    unfolding absurdleScoreGuess_def Let_def low scores ..
  have words: "map ws_word (map ?f xs) = xs" for xs
    by (simp add: comp_def)
  show ?thesis
    unfolding unfolded words by (cases "minimalSet guess candidates") simp_all
qed

lemma minimalSet_subset: "set (minimalSet guess candidates) \<subseteq> set candidates"
  by (auto simp: minimalSet_def)

lemma minimalSet_nonempty: "candidates \<noteq> [] \<Longrightarrow> minimalSet guess candidates \<noteq> []"
proof -
  assume ne: "candidates \<noteq> []"
  let ?S = "set (map (helpfulness guess) candidates)"
  have "Min ?S \<in> ?S" using ne by (intro Min_in) auto
  then obtain w where w: "w \<in> set candidates" "helpfulness guess w = Min ?S" by auto
  have "mathMin (map (helpfulness guess) candidates) = Some (Min ?S)"
    using ne by (simp add: mathMin_Min)
  with w have "w \<in> set (minimalSet guess candidates)" by (simp add: minimalSet_def)
  then show ?thesis by auto
qed

lemma example_helpfulness: "map (helpfulness ''AB'') [''CD'', ''EF''] = [0, 0]"
  by (simp add: helpfulness_def scorePattern_def scoreGuess_def toUpperCase_def upperChar_def
      Let_def decrement_def)

lemma example_minimalSet: "minimalSet ''AB'' [''CD'', ''EF''] = [''CD'', ''EF'']"
  by (simp add: minimalSet_def example_helpfulness [simplified])

text \<open>
  Claim C4. For every call of \<open>absurdleScoreGuess\<close> with a non-empty pool, the call returns a
  result; its \<open>remainingWords\<close> are words of the pool, and a \<open>selectedAnswer\<close> that is set
  is a word of the pool.
\<close>

theorem absurdleScoreGuess_pool_subset:
  "candidates \<noteq> [] \<Longrightarrow>
   \<exists>r. absurdleScoreGuess guess candidates = Inr r
     \<and> set (remainingWords r) \<subseteq> set candidates
     \<and> (\<forall>a. selectedAnswer r = Some a \<longrightarrow> a \<in> set candidates)"
proof -
  assume ne: "candidates \<noteq> []"
  then obtain first others where m: "minimalSet guess candidates = first # others"
    using minimalSet_nonempty [of candidates guess] by (cases "minimalSet guess candidates") auto
  have "first \<in> set candidates" using minimalSet_subset [of guess candidates] m by auto
  then show ?thesis using minimalSet_subset [of guess candidates]
    by (auto simp: absurdleScoreGuess_eq m)
qed

theorem absurdleScoreGuess_pool_subset_witness:
  "[''AB'', ''CD''] \<noteq> []
   \<and> (\<exists>r. absurdleScoreGuess ''AB'' [''AB'', ''CD''] = Inr r
         \<and> set (remainingWords r) \<subseteq> set [''AB'', ''CD'']
         \<and> (\<forall>a. selectedAnswer r = Some a \<longrightarrow> a \<in> set [''AB'', ''CD'']))"
  using absurdleScoreGuess_pool_subset [of "[''AB'', ''CD'']" "''AB''"] by simp

text \<open>
  Claim C2, as the source has it. For every call of \<open>absurdleScoreGuess\<close> with a non-empty
  pool in which the minimum helpfulness is 0 and more than one candidate attains it, the
  returned pattern gives every letter of the upper-case guess the state \<open>Empty\<close> (the
  source's \<^verbatim>\<open>"empty"\<close>, not \<^verbatim>\<open>"miss"\<close>), \<open>selectedAnswer\<close> is null and \<open>remainingWords\<close> are
  the candidates that attain the minimum.
\<close>

theorem absurdleScoreGuess_withholds:
  "candidates \<noteq> [] \<Longrightarrow>
   mathMin (map (helpfulness guess) candidates) = Some 0 \<Longrightarrow>
   1 < length (minimalSet guess candidates) \<Longrightarrow>
   absurdleScoreGuess guess candidates =
     Inr \<lparr>pattern = map (\<lambda>c. \<lparr>char = c, state = Empty\<rparr>) (toUpperCase guess),
          remainingWords = minimalSet guess candidates,
          selectedAnswer = None\<rparr>"
  by (cases "minimalSet guess candidates") (auto simp: absurdleScoreGuess_eq)

theorem absurdleScoreGuess_withholds_witness:
  "[''CD'', ''EF''] \<noteq> [] \<and> mathMin (map (helpfulness ''AB'') [''CD'', ''EF'']) = Some 0
   \<and> 1 < length (minimalSet ''AB'' [''CD'', ''EF''])
   \<and> absurdleScoreGuess ''AB'' [''CD'', ''EF''] =
       Inr \<lparr>pattern = map (\<lambda>c. \<lparr>char = c, state = Empty\<rparr>) (toUpperCase ''AB''),
            remainingWords = minimalSet ''AB'' [''CD'', ''EF''],
            selectedAnswer = None\<rparr>"
proof -
  have h: "[''CD'', ''EF''] \<noteq> [] \<and> mathMin (map (helpfulness ''AB'') [''CD'', ''EF'']) = Some 0
      \<and> 1 < length (minimalSet ''AB'' [''CD'', ''EF''])"
    by (simp add: example_minimalSet example_helpfulness [simplified])
  with absurdleScoreGuess_withholds [of "[''CD'', ''EF'']" "''AB''"] show ?thesis by blast
qed

text \<open>
  Claim C2 as stated fails. For the guess AB and the pool CD, EF both candidates have
  helpfulness 0, and the pattern returned marks A and B \<open>Empty\<close>: no letter is marked Miss.
\<close>

theorem absurdleScoreGuess_withholds_not_miss:
  "map (helpfulness ''AB'') [''CD'', ''EF''] = [0, 0]
   \<and> absurdleScoreGuess ''AB'' [''CD'', ''EF'']
       = Inr \<lparr>pattern = [\<lparr>char = CHR ''A'', state = Empty\<rparr>, \<lparr>char = CHR ''B'', state = Empty\<rparr>],
              remainingWords = [''CD'', ''EF''], selectedAnswer = None\<rparr>
   \<and> Miss \<notin> set (map state (pattern (projr (absurdleScoreGuess ''AB'' [''CD'', ''EF'']))))"
  by (simp add: absurdleScoreGuess_eq example_minimalSet example_helpfulness [simplified]
      toUpperCase_def upperChar_def)

section \<open>The state machine\<close>

lemmas eval_defs = submitGuess_def scoring_def advance_def turnValidation_def toClientGameState_def
  isValidWord_def onlyLetters_def trim_def isWhiteSpace_def toUpperCase_def upperChar_def
  scoreGuess_def decrement_def Let_def exampleWords_def exampleAbsurdle_def exampleMultiplayer_def

lemma submitGuess_Inr:
  "submitGuess wordList games gameId guess playerId = (Inr r, games') \<Longrightarrow>
   \<exists>game scoredGuess game1.
     games gameId = Some game \<and> gameStatus game = Playing
     \<and> turnValidation game playerId = None
     \<and> scoring game (toUpperCase (trim guess)) = Inr (scoredGuess, game1)
     \<and> currentPlayerIndex game1 < length (players game1)
     \<and> games' = games(gameId \<mapsto> advance game1 (toUpperCase (trim guess)) scoredGuess)
     \<and> r = (toClientGameState (advance game1 (toUpperCase (trim guess)) scoredGuess) [], scoredGuess)"
  by (auto simp: submitGuess_def Let_def split: option.splits if_splits sum.splits prod.splits)

lemma scoring_other_mode:
  "mode game \<noteq> Absurdle \<or> answer game \<noteq> [] \<Longrightarrow> scoring game ng = Inr (scoreGuess ng (answer game), game)"
  by (auto simp: scoring_def)

lemma scoring_fields:
  "scoring game ng = Inr (sg, game1) \<Longrightarrow>
     mode game1 = mode game \<and> players game1 = players game
     \<and> currentPlayerIndex game1 = currentPlayerIndex game \<and> currentRow game1 = currentRow game
     \<and> gameStatus game1 = gameStatus game \<and> maxRounds game1 = maxRounds game"
  by (auto simp: scoring_def Let_def split: option.splits if_splits sum.splits)

lemma advance_multiplayer:
  "mode game = Multiplayer \<Longrightarrow>
   mode (advance game ng sg) = Multiplayer
   \<and> length (players (advance game ng sg)) = length (players game)
   \<and> currentPlayerIndex (advance game ng sg) = (currentPlayerIndex game + 1) mod length (players game)
   \<and> currentRow (advance game ng sg)
       = currentRow game + (if (currentPlayerIndex game + 1) mod length (players game) = 0 then 1 else 0)"
  by (auto simp: advance_def Let_def split: list.splits)

lemma submit_step_multiplayer:
  assumes "submitGuess wordList games gameId guess playerId = (Inr r, games')"
    and "games gameId = Some game" and "mode game = Multiplayer"
  shows "\<exists>game'. games' gameId = Some game' \<and> mode game' = Multiplayer
     \<and> length (players game') = length (players game)
     \<and> currentPlayerIndex game < length (players game)
     \<and> currentPlayerIndex game' = (currentPlayerIndex game + 1) mod length (players game)
     \<and> currentRow game'
         = currentRow game + (if (currentPlayerIndex game + 1) mod length (players game) = 0 then 1 else 0)"
proof -
  from submitGuess_Inr [OF assms(1)] assms(2) obtain scoredGuess game1 where
    sc: "scoring game (toUpperCase (trim guess)) = Inr (scoredGuess, game1)"
    and idx: "currentPlayerIndex game1 < length (players game1)"
    and st: "games' = games(gameId \<mapsto> advance game1 (toUpperCase (trim guess)) scoredGuess)"
    by auto
  from scoring_fields [OF sc] assms(3) have f: "mode game1 = Multiplayer" "players game1 = players game"
    "currentPlayerIndex game1 = currentPlayerIndex game" "currentRow game1 = currentRow game"
    by auto
  from advance_multiplayer [OF f(1), of "toUpperCase (trim guess)" scoredGuess] f idx st
  show ?thesis by simp
qed

lemma cycle_arith:
  fixes i k n :: nat
  assumes "i < n"
  shows "(if (i + 1) mod n = 0 then 1 else 0) + ((i + 1) mod n + k) div n = (i + Suc k) div n"
proof (cases "i + 1 = n")
  case True
  have n0: "0 < n" using assms by simp
  have e: "i + Suc k = n + k" using True by arith
  have "(i + Suc k) div n = (n + k) div n" by (simp only: e)
  also have "\<dots> = Suc (k div n)" using div_add_self1 [of n k] n0 by simp
  finally show ?thesis using True by simp
next
  case False
  with assms have "i + 1 < n" by simp
  then show ?thesis by simp
qed

lemma submitGuesses_cycle:
  "submitGuesses wordList games gameId subs = Some games' \<Longrightarrow>
   games gameId = Some game \<Longrightarrow> mode game = Multiplayer \<Longrightarrow>
   currentPlayerIndex game < length (players game) \<Longrightarrow>
   \<exists>game'. games' gameId = Some game' \<and> mode game' = Multiplayer
     \<and> length (players game') = length (players game)
     \<and> currentPlayerIndex game' = (currentPlayerIndex game + length subs) mod length (players game)
     \<and> currentRow game' = currentRow game + (currentPlayerIndex game + length subs) div length (players game)"
proof (induction subs arbitrary: games game)
  case Nil
  then show ?case by simp
next
  case (Cons sub subs)
  obtain guess playerId where sub: "sub = (guess, playerId)" by (cases sub)
  from Cons.prems(1) sub obtain r games1 where
    first: "submitGuess wordList games gameId guess playerId = (Inr r, games1)"
    and rest: "submitGuesses wordList games1 gameId subs = Some games'"
    by (auto split: prod.splits sum.splits)
  let ?n = "length (players game)"
  let ?i = "currentPlayerIndex game"
  from submit_step_multiplayer [OF first Cons.prems(2,3)] obtain game1 where
    g1: "games1 gameId = Some game1" "mode game1 = Multiplayer"
      "length (players game1) = ?n"
      "currentPlayerIndex game1 = (?i + 1) mod ?n"
      "currentRow game1 = currentRow game + (if (?i + 1) mod ?n = 0 then 1 else 0)"
    by auto
  have lt: "currentPlayerIndex game1 < length (players game1)"
  proof -
    have "0 < ?n" using Cons.prems(4) by linarith
    then have "(?i + 1) mod ?n < ?n" by (rule mod_less_divisor)
    then show ?thesis using g1(3,4) by simp
  qed
  from Cons.IH [OF rest g1(1,2) lt] obtain game' where
    g': "games' gameId = Some game'" "mode game' = Multiplayer"
      "length (players game') = ?n"
      "currentPlayerIndex game' = ((?i + 1) mod ?n + length subs) mod ?n"
      "currentRow game' = currentRow game1 + ((?i + 1) mod ?n + length subs) div ?n"
    using g1(3,4) by auto
  have idx: "currentPlayerIndex game' = (?i + length (sub # subs)) mod ?n"
    using g'(4) by (simp add: mod_add_left_eq)
  have row: "currentRow game' = currentRow game + (?i + length (sub # subs)) div ?n"
    using g'(5) g1(5) cycle_arith [OF Cons.prems(4), of "length subs"] by simp
  from g'(1,2,3) idx row show ?case by blast
qed

text \<open>
  Claim C7. In a Multiplayer session with N players (N at least 1), N consecutive calls of
  \<open>submitGuess\<close> that all succeed (so the status is Playing before each of them) bring
  \<open>currentPlayerIndex\<close> back to its original value and increment \<open>currentRow\<close> by exactly 1.
\<close>

theorem submitGuesses_turn_cycle:
  assumes "games gameId = Some game" and "mode game = Multiplayer"
    and "players game \<noteq> []" and "length subs = length (players game)"
    and "submitGuesses wordList games gameId subs = Some games'"
  shows "\<exists>game'. games' gameId = Some game'
     \<and> currentPlayerIndex game' = currentPlayerIndex game
     \<and> currentRow game' = currentRow game + 1"
proof -
  from assms(3,4) obtain sub rest where subs: "subs = sub # rest" by (cases subs) auto
  obtain guess playerId where sub: "sub = (guess, playerId)" by (cases sub)
  from assms(5) subs sub obtain r games1 where
    first: "submitGuess wordList games gameId guess playerId = (Inr r, games1)"
    by (auto split: prod.splits sum.splits)
  from submit_step_multiplayer [OF first assms(1,2)]
  have lt: "currentPlayerIndex game < length (players game)" by auto
  have n0: "length (players game) \<noteq> 0" using lt by linarith
  have "(currentPlayerIndex game + length (players game)) div length (players game)
      = currentPlayerIndex game div length (players game) + 1"
    by (rule div_add_self2 [OF n0])
  then have "(currentPlayerIndex game + length (players game)) div length (players game) = 1"
    using lt by (simp only: div_less)
  with submitGuesses_cycle [OF assms(5,1,2) lt] assms(4) lt show ?thesis by auto
qed

theorem submitGuesses_turn_cycle_witness:
  "[''m'' \<mapsto> exampleMultiplayer] ''m'' = Some exampleMultiplayer
   \<and> mode exampleMultiplayer = Multiplayer \<and> players exampleMultiplayer \<noteq> []
   \<and> length [(''ab'', None), (''ab'', Some ''p2'')] = length (players exampleMultiplayer)
   \<and> (\<exists>games'. submitGuesses exampleWords [''m'' \<mapsto> exampleMultiplayer] ''m''
                  [(''ab'', None), (''ab'', Some ''p2'')] = Some games'
         \<and> (\<exists>game'. games' ''m'' = Some game'
               \<and> currentPlayerIndex game' = currentPlayerIndex exampleMultiplayer
               \<and> currentRow game' = currentRow exampleMultiplayer + 1))"
proof -
  have "submitGuesses exampleWords [''m'' \<mapsto> exampleMultiplayer] ''m''
      [(''ab'', None), (''ab'', Some ''p2'')] \<noteq> None"
    by (simp add: eval_defs)
  then obtain games' where run: "submitGuesses exampleWords [''m'' \<mapsto> exampleMultiplayer] ''m''
      [(''ab'', None), (''ab'', Some ''p2'')] = Some games'"
    by blast
  have h: "[''m'' \<mapsto> exampleMultiplayer] ''m'' = Some exampleMultiplayer"
    "mode exampleMultiplayer = Multiplayer" "players exampleMultiplayer \<noteq> []"
    "length [(''ab'', None :: string option), (''ab'', Some ''p2'')] = length (players exampleMultiplayer)"
    by (simp_all add: exampleMultiplayer_def)
  from submitGuesses_turn_cycle [OF h run] h run show ?thesis by blast
qed

text \<open>
  Claim C8. Whenever \<open>submitGuess\<close> fails with one of the errors that the service throws
  itself (game not found, game not in playing state, invalid guess format, wrong guess
  length, letters only, not a valid word, another player's turn, no candidate words, no
  valid patterns), the store is unchanged: it holds the same session for every id, so no
  guess was appended and \<open>currentPlayerIndex\<close>, \<open>currentRow\<close>, \<open>gameStatus\<close>, \<open>answer\<close> and
  \<open>candidateWords\<close> keep their values. The one error left out is the run-time TypeError
  of a player index outside the array of players, which no failure of the claim is.
\<close>

theorem submitGuess_error_unchanged:
  "submitGuess wordList games gameId guess playerId = (Inl e, games') \<Longrightarrow>
   e \<noteq> TypeError \<Longrightarrow> games' = games"
  by (auto simp: submitGuess_def Let_def split: option.splits if_splits sum.splits prod.splits)

theorem submitGuess_error_unchanged_witness:
  "submitGuess exampleWords [''m'' \<mapsto> exampleMultiplayer] ''m'' ''ab'' (Some ''p2'')
     = (Inl (NotYourTurn ''Ann''),
        snd (submitGuess exampleWords [''m'' \<mapsto> exampleMultiplayer] ''m'' ''ab'' (Some ''p2'')))
   \<and> NotYourTurn ''Ann'' \<noteq> TypeError
   \<and> snd (submitGuess exampleWords [''m'' \<mapsto> exampleMultiplayer] ''m'' ''ab'' (Some ''p2''))
       = [''m'' \<mapsto> exampleMultiplayer]"
proof -
  have "fst (submitGuess exampleWords [''m'' \<mapsto> exampleMultiplayer] ''m'' ''ab'' (Some ''p2''))
      = Inl (NotYourTurn ''Ann'')"
    by (simp add: eval_defs)
  then have h: "submitGuess exampleWords [''m'' \<mapsto> exampleMultiplayer] ''m'' ''ab'' (Some ''p2'')
     = (Inl (NotYourTurn ''Ann''),
        snd (submitGuess exampleWords [''m'' \<mapsto> exampleMultiplayer] ''m'' ''ab'' (Some ''p2'')))"
    by (simp add: prod_eq_iff)
  have ne: "NotYourTurn ''Ann'' \<noteq> TypeError" by simp
  from submitGuess_error_unchanged [OF h ne] h ne show ?thesis by blast
qed

text \<open>
  Claim C9. \<open>getGameAnswer\<close> returns null for an unknown id and while the status is
  Playing. When the status is Won or Lost it returns the answer of the session; for an
  Absurdle session whose answer is still the empty string it returns the only candidate
  when \<open>candidateWords\<close> is a list of one word, and null otherwise.
\<close>

theorem getGameAnswer_cases:
  "(games gameId = None \<longrightarrow> getGameAnswer games gameId = None)
   \<and> (games gameId = Some game \<and> gameStatus game = Playing \<longrightarrow> getGameAnswer games gameId = None)
   \<and> (games gameId = Some game \<and> gameStatus game \<noteq> Playing
        \<and> (mode game \<noteq> Absurdle \<or> answer game \<noteq> [])
        \<longrightarrow> getGameAnswer games gameId = Some (answer game))
   \<and> (games gameId = Some game \<and> gameStatus game \<noteq> Playing \<and> mode game = Absurdle
        \<and> answer game = []
        \<longrightarrow> (\<forall>w. candidateWords game = Some [w] \<longrightarrow> getGameAnswer games gameId = Some w)
          \<and> ((\<forall>w. candidateWords game \<noteq> Some [w]) \<longrightarrow> getGameAnswer games gameId = None))"
  by (auto simp: getGameAnswer_def length_Suc_conv split: option.splits)

theorem getGameAnswer_cases_witness:
  "getGameAnswer Map.empty ''g'' = None
   \<and> getGameAnswer [''g'' \<mapsto> exampleAbsurdle] ''g'' = None
   \<and> getGameAnswer [''m'' \<mapsto> exampleMultiplayer\<lparr>gameStatus := Won\<rparr>] ''m'' = Some ''CD''
   \<and> getGameAnswer [''g'' \<mapsto> exampleAbsurdle\<lparr>gameStatus := Lost, candidateWords := Some [''CD'']\<rparr>] ''g''
       = Some ''CD''
   \<and> getGameAnswer [''g'' \<mapsto> exampleAbsurdle\<lparr>gameStatus := Lost\<rparr>] ''g'' = None"
  using getGameAnswer_cases [of Map.empty "''g''"]
    getGameAnswer_cases [of "[''g'' \<mapsto> exampleAbsurdle]" "''g''" exampleAbsurdle]
    getGameAnswer_cases [of "[''m'' \<mapsto> exampleMultiplayer\<lparr>gameStatus := Won\<rparr>]" "''m''"
      "exampleMultiplayer\<lparr>gameStatus := Won\<rparr>"]
    getGameAnswer_cases [of "[''g'' \<mapsto> exampleAbsurdle\<lparr>gameStatus := Lost, candidateWords := Some [''CD'']\<rparr>]"
      "''g''" "exampleAbsurdle\<lparr>gameStatus := Lost, candidateWords := Some [''CD'']\<rparr>"]
    getGameAnswer_cases [of "[''g'' \<mapsto> exampleAbsurdle\<lparr>gameStatus := Lost\<rparr>]" "''g''"
      "exampleAbsurdle\<lparr>gameStatus := Lost\<rparr>"]
  by (simp add: exampleAbsurdle_def exampleMultiplayer_def)

section \<open>Resolution of the answer in Absurdle mode\<close>

lemma advance_keeps:
  "answer (advance game ng sg) = answer game \<and> candidateWords (advance game ng sg) = candidateWords game"
  by (auto simp: advance_def Let_def split: list.splits)

lemma absurdle_selected:
  assumes "absurdleScoreGuess guess candidates = Inr r" and "selectedAnswer r = Some sel"
  shows "sel \<in> set (remainingWords r)"
  using assms by (auto simp: absurdleScoreGuess_eq split: list.splits if_splits)

lemma absurdle_remaining_nonempty:
  assumes "absurdleScoreGuess guess candidates = Inr r"
  shows "remainingWords r \<noteq> []"
  using assms by (auto simp: absurdleScoreGuess_eq split: list.splits if_splits)

lemma scoring_absurdle:
  assumes "mode game = Absurdle" and "scoring game ng = Inr (sg, game1)"
  shows "(answer game1 \<noteq> [] \<or> (\<exists>cw. candidateWords game1 = Some cw \<and> cw \<noteq> []))
    \<and> (\<forall>cands r sel. answer game = [] \<and> candidateWords game = Some cands
          \<and> absurdleScoreGuess ng cands = Inr r \<and> selectedAnswer r = Some sel
        \<longrightarrow> answer game1 = sel \<and> candidateWords game1 = Some (remainingWords r))"
  using assms absurdle_remaining_nonempty
  by (auto simp: scoring_def Let_def split: option.splits if_splits sum.splits)

text \<open>
  Claim C3, as the source has it. In Absurdle mode, whenever \<open>submitGuess\<close> receives a
  \<open>selectedAnswer\<close> from the selector it sets the answer of the session to it, and it
  stores the selector's \<open>remainingWords\<close> as \<open>candidateWords\<close>: a non-empty list that
  contains the new answer, so the pool is not cleared. After every successful call on an
  Absurdle session at least one of: answer resolved (not the empty string),
  \<open>candidateWords\<close> non-empty, holds; after a call that resolved the answer both hold.
\<close>

theorem submitGuess_absurdle_resolution:
  assumes "games gameId = Some game" and "mode game = Absurdle"
    and "submitGuess wordList games gameId guess playerId = (Inr res, games')"
  shows "\<exists>game'. games' gameId = Some game'
     \<and> (answer game' \<noteq> [] \<or> (\<exists>cw. candidateWords game' = Some cw \<and> cw \<noteq> []))
     \<and> (\<forall>cands r sel. answer game = [] \<and> candidateWords game = Some cands
           \<and> absurdleScoreGuess (toUpperCase (trim guess)) cands = Inr r
           \<and> selectedAnswer r = Some sel
         \<longrightarrow> answer game' = sel \<and> candidateWords game' = Some (remainingWords r)
             \<and> remainingWords r \<noteq> [] \<and> sel \<in> set (remainingWords r))"
proof -
  from submitGuess_Inr [OF assms(3)] assms(1) obtain scoredGuess game1 where
    sc: "scoring game (toUpperCase (trim guess)) = Inr (scoredGuess, game1)"
    and st: "games' = games(gameId \<mapsto> advance game1 (toUpperCase (trim guess)) scoredGuess)"
    by auto
  let ?g = "advance game1 (toUpperCase (trim guess)) scoredGuess"
  have keep: "answer ?g = answer game1" "candidateWords ?g = candidateWords game1"
    using advance_keeps by auto
  from scoring_absurdle [OF assms(2) sc] absurdle_selected absurdle_remaining_nonempty
  show ?thesis unfolding st by (auto simp: keep)
qed

theorem submitGuess_absurdle_resolution_witness:
  "[''g'' \<mapsto> exampleAbsurdle] ''g'' = Some exampleAbsurdle \<and> mode exampleAbsurdle = Absurdle
   \<and> (\<exists>res games'. submitGuess exampleWords [''g'' \<mapsto> exampleAbsurdle] ''g'' ''ab'' None = (Inr res, games')
         \<and> (\<exists>game'. games' ''g'' = Some game' \<and> answer game' = ''CD''
               \<and> candidateWords game' = Some [''CD'']))"
proof -
  let ?call = "submitGuess exampleWords [''g'' \<mapsto> exampleAbsurdle] ''g'' ''ab'' None"
  have h1: "[''g'' \<mapsto> exampleAbsurdle] ''g'' = Some exampleAbsurdle" by simp
  have h2: "mode exampleAbsurdle = Absurdle" by (simp add: exampleAbsurdle_def)
  have "\<exists>res. fst ?call = Inr res"
    by (simp add: eval_defs absurdleScoreGuess_def scorePattern_def)
  then obtain res where "fst ?call = Inr res" ..
  then have h3: "?call = (Inr res, snd ?call)" by (simp add: prod_eq_iff)
  have sel: "absurdleScoreGuess (toUpperCase (trim ''ab'')) [''AB'', ''CD'']
      = Inr \<lparr>pattern = [\<lparr>char = CHR ''A'', state = Miss\<rparr>, \<lparr>char = CHR ''B'', state = Miss\<rparr>],
             remainingWords = [''CD''], selectedAnswer = Some ''CD''\<rparr>"
    by (simp add: eval_defs absurdleScoreGuess_def scorePattern_def)
  from submitGuess_absurdle_resolution [OF h1 h2 h3] obtain game' where g': "snd ?call ''g'' = Some game'"
    and imp: "\<forall>cands r sel. answer exampleAbsurdle = [] \<and> candidateWords exampleAbsurdle = Some cands
           \<and> absurdleScoreGuess (toUpperCase (trim ''ab'')) cands = Inr r
           \<and> selectedAnswer r = Some sel
         \<longrightarrow> answer game' = sel \<and> candidateWords game' = Some (remainingWords r)
             \<and> remainingWords r \<noteq> [] \<and> sel \<in> set (remainingWords r)"
    by blast
  from imp [rule_format, of "[''AB'', ''CD'']" _ "''CD''"] sel
  have "answer game' = ''CD'' \<and> candidateWords game' = Some [''CD'']"
    by (simp add: exampleAbsurdle_def)
  with h1 h2 h3 g' show ?thesis by blast
qed

text \<open>
  Claim C3 as stated fails. In the example Absurdle session over the words AB and CD, the
  guess ab resolves the answer to CD; the session is still Playing, its answer is CD and
  its \<open>candidateWords\<close> is the list of CD: the pool is not cleared, and both the answer
  is resolved and the pool is non-empty.
\<close>

theorem submitGuess_absurdle_pool_kept:
  "map_option gameStatus (snd (submitGuess exampleWords [''g'' \<mapsto> exampleAbsurdle] ''g'' ''ab'' None) ''g'') = Some Playing
 \<and> map_option answer (snd (submitGuess exampleWords [''g'' \<mapsto> exampleAbsurdle] ''g'' ''ab'' None) ''g'') = Some ''CD''
 \<and> map_option candidateWords (snd (submitGuess exampleWords [''g'' \<mapsto> exampleAbsurdle] ''g'' ''ab'' None) ''g'') = Some (Some [''CD''])"
  by (simp add: eval_defs absurdleScoreGuess_def scorePattern_def)

section \<open>Ties in Multiplayer mode\<close>

lemma advance_multiplayer_players:
  assumes "mode game = Multiplayer" and "players game = [p0, p1]"
  shows "currentPlayerIndex game = 0 \<Longrightarrow> ng = answer game \<Longrightarrow> gameStatus game = Playing \<Longrightarrow>
     advance game ng sg = game\<lparr>players := [p0\<lparr>guesses := guesses p0 @ [sg], isWinner := True\<rparr>, p1],
                                currentPlayerIndex := 1\<rparr>"
    and "currentPlayerIndex game = 1 \<Longrightarrow> ng = answer game \<Longrightarrow> isWinner p0 \<Longrightarrow> gameStatus game = Playing \<Longrightarrow>
     advance game ng sg = game\<lparr>players := [p0, p1\<lparr>guesses := guesses p1 @ [sg], isWinner := True\<rparr>],
                                currentPlayerIndex := 0, currentRow := currentRow game + 1,
                                gameStatus := Won, winnerId := Some (pid p0)\<rparr>"
  using assms by (simp_all add: advance_def Let_def)

text \<open>
  Claim C6. In a Multiplayer session with two players, when the turn is the first
  player's and both players in turn submit the answer (two successful calls of
  \<open>submitGuess\<close>), the session's status is Won after the second call and the winners, the
  players with \<^verbatim>\<open>isWinner\<close> set, are both players: \<open>winnerIds\<close> has the two ids. The field
  \<^verbatim>\<open>winnerId\<close> of the session holds the id of the first of them.
\<close>

theorem submitGuess_multiplayer_tie:
  assumes "games gameId = Some game" and "mode game = Multiplayer"
    and "players game = [p0, p1]" and "currentPlayerIndex game = 0"
    and "toUpperCase (trim guess0) = answer game" and "toUpperCase (trim guess1) = answer game"
    and "submitGuess wordList games gameId guess0 playerId0 = (Inr r0, games1)"
    and "submitGuess wordList games1 gameId guess1 playerId1 = (Inr r1, games2)"
  shows "\<exists>game2. games2 gameId = Some game2 \<and> gameStatus game2 = Won
     \<and> winnerIds game2 = [pid p0, pid p1] \<and> winnerId game2 = Some (pid p0)"
proof -
  from submitGuess_Inr [OF assms(7)] assms(1) obtain sg0 game0' where
    st0: "gameStatus game = Playing"
    and sc0: "scoring game (toUpperCase (trim guess0)) = Inr (sg0, game0')"
    and games1: "games1 = games(gameId \<mapsto> advance game0' (toUpperCase (trim guess0)) sg0)"
    by auto
  from sc0 assms(2) have g0': "game0' = game"
    by (simp add: scoring_other_mode)
  define q0 where "q0 = p0\<lparr>guesses := guesses p0 @ [sg0], isWinner := True\<rparr>"
  define game1 where "game1 = game\<lparr>players := [q0, p1], currentPlayerIndex := 1\<rparr>"
  have adv0: "advance game (toUpperCase (trim guess0)) sg0 = game1"
    using advance_multiplayer_players(1) [OF assms(2,3,4), of "toUpperCase (trim guess0)" sg0] assms(5) st0
    by (simp add: game1_def q0_def)
  have g1: "games1 gameId = Some game1"
    by (simp add: games1 g0' adv0)
  have f1: "mode game1 = Multiplayer" "players game1 = [q0, p1]" "currentPlayerIndex game1 = 1"
    "answer game1 = answer game" "gameStatus game1 = Playing" "isWinner q0" "pid q0 = pid p0"
    using assms(2) st0 by (simp_all add: game1_def q0_def)
  from submitGuess_Inr [OF assms(8)] g1 obtain sg1 game1' where
    sc1: "scoring game1 (toUpperCase (trim guess1)) = Inr (sg1, game1')"
    and games2: "games2 = games1(gameId \<mapsto> advance game1' (toUpperCase (trim guess1)) sg1)"
    by auto
  from sc1 f1(1) have g1': "game1' = game1"
    by (simp add: scoring_other_mode)
  have adv1: "advance game1 (toUpperCase (trim guess1)) sg1
      = game1\<lparr>players := [q0, p1\<lparr>guesses := guesses p1 @ [sg1], isWinner := True\<rparr>],
               currentPlayerIndex := 0, currentRow := currentRow game1 + 1,
               gameStatus := Won, winnerId := Some (pid q0)\<rparr>"
    using advance_multiplayer_players(2) [OF f1(1,2,3), of "toUpperCase (trim guess1)" sg1] assms(6) f1(4,5,6)
    by simp
  show ?thesis
    by (simp add: games2 g1' adv1 winnerIds_def f1)
qed

theorem submitGuess_multiplayer_tie_witness:
  "[''m'' \<mapsto> exampleMultiplayer] ''m'' = Some exampleMultiplayer
   \<and> mode exampleMultiplayer = Multiplayer
   \<and> players exampleMultiplayer
       = [\<lparr>pid = ''p1'', pname = ''Ann'', guesses = [], isWinner = False\<rparr>,
          \<lparr>pid = ''p2'', pname = ''Bob'', guesses = [], isWinner = False\<rparr>]
   \<and> currentPlayerIndex exampleMultiplayer = 0
   \<and> toUpperCase (trim ''cd'') = answer exampleMultiplayer
   \<and> toUpperCase (trim '' CD'') = answer exampleMultiplayer
   \<and> (\<exists>r0 games1 r1 games2.
         submitGuess exampleWords [''m'' \<mapsto> exampleMultiplayer] ''m'' ''cd'' (Some ''p1'') = (Inr r0, games1)
         \<and> submitGuess exampleWords games1 ''m'' '' CD'' (Some ''p2'') = (Inr r1, games2)
         \<and> (\<exists>game2. games2 ''m'' = Some game2 \<and> gameStatus game2 = Won
               \<and> winnerIds game2 = [''p1'', ''p2''] \<and> winnerId game2 = Some ''p1''))"
proof -
  let ?call0 = "submitGuess exampleWords [''m'' \<mapsto> exampleMultiplayer] ''m'' ''cd'' (Some ''p1'')"
  let ?call1 = "submitGuess exampleWords (snd ?call0) ''m'' '' CD'' (Some ''p2'')"
  have h: "[''m'' \<mapsto> exampleMultiplayer] ''m'' = Some exampleMultiplayer"
    "mode exampleMultiplayer = Multiplayer"
    "players exampleMultiplayer
       = [\<lparr>pid = ''p1'', pname = ''Ann'', guesses = [], isWinner = False\<rparr>,
          \<lparr>pid = ''p2'', pname = ''Bob'', guesses = [], isWinner = False\<rparr>]"
    "currentPlayerIndex exampleMultiplayer = 0"
    "toUpperCase (trim ''cd'') = answer exampleMultiplayer"
    "toUpperCase (trim '' CD'') = answer exampleMultiplayer"
    by (simp_all add: exampleMultiplayer_def trim_def isWhiteSpace_def toUpperCase_def upperChar_def)
  have "\<exists>r0. fst ?call0 = Inr r0"
    by (simp add: eval_defs)
  then obtain r0 where "fst ?call0 = Inr r0" ..
  then have c0: "?call0 = (Inr r0, snd ?call0)" by (simp add: prod_eq_iff)
  have "\<exists>r1. fst ?call1 = Inr r1"
    by (simp add: eval_defs)
  then obtain r1 where "fst ?call1 = Inr r1" ..
  then have c1: "?call1 = (Inr r1, snd ?call1)" by (simp add: prod_eq_iff)
  from submitGuess_multiplayer_tie [OF h c0 c1]
  have fin: "\<exists>game2. snd ?call1 ''m'' = Some game2 \<and> gameStatus game2 = Won
      \<and> winnerIds game2 = [''p1'', ''p2''] \<and> winnerId game2 = Some ''p1''"
    by simp
  have "\<exists>r0 games1 r1 games2. ?call0 = (Inr r0, games1)
      \<and> submitGuess exampleWords games1 ''m'' '' CD'' (Some ''p2'') = (Inr r1, games2)
      \<and> (\<exists>game2. games2 ''m'' = Some game2 \<and> gameStatus game2 = Won
            \<and> winnerIds game2 = [''p1'', ''p2''] \<and> winnerId game2 = Some ''p1'')"
    by (rule exI, rule exI, rule exI, rule exI, rule conjI [OF c0 conjI [OF c1 fin]])
  with h show ?thesis by blast
qed

end
